theory Spec2Isabelle
  imports Main "HOL-Library.Char_ord" "HOL-Library.List_Lexorder" "HOL-Library.Product_Lexorder"
begin

section \<open>Lebanon Health Infrastructure: the data pipeline of streamlit_app.py\<close>

text \<open>
  The script reads one CSV into a pandas DataFrame, normalises and renames its column
  labels, checks the required columns, coerces the four resource-count columns to numbers,
  groups by Town, and derives two chart tables. The embedding follows the script line by
  line. pandas, re and streamlit are libraries outside the repository; their operations
  are written out as the library documents them. What the script only calls and the
  library leaves open or keeps in its own code is a parameter of the model: the numeric
  parser behind \<^verbatim>\<open>pd.to_numeric\<close>, the regular expression engine behind
  \<^verbatim>\<open>str.contains\<close>, and the order in which the default sort leaves equal keys.

  Scope of the model: strings are byte lists, so only the ASCII whitespace characters are
  whitespace; numbers are unbounded integers (the counts of the data set), so floating
  point and 64-bit wrap-around are not modelled.
\<close>

subsection \<open>Cells, frames and errors\<close>

text \<open>
  A cell as \<^verbatim>\<open>pd.read_csv\<close> delivers it: a number (numeric column), a string
  (object column), or NaN (an empty field).
\<close>

datatype cell = Num int | Str string | NaN

text \<open>The DataFrame \<^verbatim>\<open>df\<close>: its column labels and its rows.\<close>

record frame =
  columns :: "string list"
  rows :: "cell list list"

text \<open>
  The ways the script stops. \<open>MissingColumns\<close> is the script's own
  \<^verbatim>\<open>st.error(...); st.stop()\<close>; the others are the exceptions the libraries raise.
\<close>

datatype error = MissingColumns | TypeError | ValueError | AttributeError | RegexError

text \<open>\<^verbatim>\<open>read_csv\<close> pads a short row with NaN.\<close>

definition cell_at :: "cell list \<Rightarrow> nat \<Rightarrow> cell" where
  "cell_at r i = (if i < length r then r ! i else NaN)"

subsection \<open>Column labels (lines 23 to 42)\<close>

text \<open>Python's \<^verbatim>\<open>str.isspace\<close> and the regex class \<^verbatim>\<open>\s\<close>, on ASCII.\<close>

definition is_space :: "char \<Rightarrow> bool" where
  "is_space c = (let n = (of_char c :: nat) in (9 \<le> n \<and> n \<le> 13) \<or> (28 \<le> n \<and> n \<le> 32))"

text \<open>\<^verbatim>\<open>s.strip()\<close>\<close>

definition strip :: "string \<Rightarrow> string" where
  "strip s = rev (dropWhile is_space (rev (dropWhile is_space s)))"

text \<open>\<^verbatim>\<open>re.sub(r"\s+", " ", s)\<close>: every maximal run of whitespace becomes one space.\<close>

function collapse_ws :: "string \<Rightarrow> string" where
  "collapse_ws [] = []"
| "collapse_ws (c # cs) =
     (if is_space c then CHR '' '' # collapse_ws (dropWhile is_space cs)
      else c # collapse_ws cs)"
  by pat_completeness auto
termination
  by (relation "measure length") (auto simp: length_dropWhile_le le_imp_less_Suc)

definition normalize_name :: "string \<Rightarrow> string" where
  "normalize_name s = collapse_ws (strip s)"

definition rename_map :: "(string \<times> string) list" where
  "rename_map =
   [(''Existence of nearby care centers - exists'', ''nearby_exists''),
    (''Existence of special needs care centers - does not exist'', ''snc_no''),
    (''Existence of health resources - exists'', ''health_exists''),
    (''Type and size of medical resources - Hospitals'', ''hospitals''),
    (''Existence of a first aid center - exists'', ''first_aid_exists''),
    (''Total number of care centers'', ''care_cnt''),
    (''Type and size of medical resources - Clinics'', ''clinics''),
    (''Existence of special needs care centers - exists'', ''snc_yes''),
    (''Type and size of medical resources - Pharmacies'', ''pharmacies''),
    (''Total number of first aid centers'', ''first_aid_cnt''),
    (''Type and size of medical resources - Labs and Radiology'', ''labs_radiology''),
    (''Percentage of towns with special needs indiciduals - Without special needs'', ''pct_no_sn''),
    (''Percentage of towns with special needs indiciduals - With special needs'', ''pct_with_sn''),
    (''Type and size of medical resources - Medical Centers'', ''medical_centers'')]"

text \<open>\<^verbatim>\<open>df.rename(columns=...)\<close>: a label of the mapping is replaced, any other is kept.\<close>

definition rename :: "string \<Rightarrow> string" where
  "rename c = (case map_of rename_map c of Some v \<Rightarrow> v | None \<Rightarrow> c)"

definition renamed_columns :: "frame \<Rightarrow> string list" where
  "renamed_columns df = map (rename \<circ> normalize_name) (columns df)"

subsection \<open>Validate and coerce (lines 45 to 50)\<close>

definition need :: "string list" where
  "need = [''hospitals'', ''clinics'', ''pharmacies'', ''medical_centers'']"

text \<open>
  \<^verbatim>\<open>pd.to_numeric(x, errors="coerce")\<close> on one cell: a number stays, a string goes
  through the library's numeric parser \<open>parse\<close> and becomes NaN (\<open>None\<close>) when the
  parser rejects it, NaN stays NaN. Then \<^verbatim>\<open>.fillna(0)\<close>.
\<close>

definition to_numeric :: "(string \<Rightarrow> int option) \<Rightarrow> cell \<Rightarrow> int option" where
  "to_numeric parse c = (case c of Num n \<Rightarrow> Some n | Str s \<Rightarrow> parse s | NaN \<Rightarrow> None)"

definition fillna0 :: "int option \<Rightarrow> int" where
  "fillna0 v = (case v of Some n \<Rightarrow> n | None \<Rightarrow> 0)"

definition coerce :: "(string \<Rightarrow> int option) \<Rightarrow> cell \<Rightarrow> int" where
  "coerce parse c = fillna0 (to_numeric parse c)"

text \<open>Position of the first column with a given label.\<close>

fun index_of :: "string \<Rightarrow> string list \<Rightarrow> nat" where
  "index_of c [] = 0"
| "index_of c (x # xs) = (if x = c then 0 else Suc (index_of c xs))"

text \<open>The five columns the rest of the script reads.\<close>

record town_counts =
  Town :: cell
  hospitals :: int
  clinics :: int
  pharmacies :: int
  medical_centers :: int

definition coerce_row :: "(string \<Rightarrow> int option) \<Rightarrow> string list \<Rightarrow> cell list \<Rightarrow> town_counts" where
  "coerce_row parse cols r =
     \<lparr>Town = cell_at r (index_of ''Town'' cols),
      hospitals = coerce parse (cell_at r (index_of ''hospitals'' cols)),
      clinics = coerce parse (cell_at r (index_of ''clinics'' cols)),
      pharmacies = coerce parse (cell_at r (index_of ''pharmacies'' cols)),
      medical_centers = coerce parse (cell_at r (index_of ''medical_centers'' cols))\<rparr>"

text \<open>
  Lines 23 to 50, and the column selection of line 54. The first test is the script's own
  check. With a resource label occurring twice, \<^verbatim>\<open>df[c]\<close> is a DataFrame and
  \<^verbatim>\<open>pd.to_numeric\<close> raises TypeError; with the label Town occurring twice,
  \<^verbatim>\<open>groupby("Town")\<close> raises ValueError.
\<close>

definition load :: "(string \<Rightarrow> int option) \<Rightarrow> frame \<Rightarrow> error + town_counts list" where
  "load parse df =
     (let cols = renamed_columns df in
      if ''Town'' \<notin> set cols \<or> list_ex (\<lambda>c. c \<notin> set cols) need then Inl MissingColumns
      else if list_ex (\<lambda>c. 1 < count_list cols c) need then Inl TypeError
      else if 1 < count_list cols ''Town'' then Inl ValueError
      else Inr (map (coerce_row parse cols) (rows df)))"

subsection \<open>Aggregate once per town (lines 53 to 58)\<close>

text \<open>
  \<^verbatim>\<open>groupby("Town", dropna=False)\<close> keeps NaN as a key and, with its default
  \<^verbatim>\<open>sort=True\<close>, orders the keys: numbers, then strings, then NaN.
\<close>

definition key_rank :: "cell \<Rightarrow> nat \<times> int \<times> string" where
  "key_rank c = (case c of Num n \<Rightarrow> (0, n, []) | Str s \<Rightarrow> (1, 0, s) | NaN \<Rightarrow> (2, 0, []))"

definition group_keys :: "town_counts list \<Rightarrow> cell list" where
  "group_keys rs = sort_key key_rank (remdups (map Town rs))"

definition group_rows :: "cell \<Rightarrow> town_counts list \<Rightarrow> town_counts list" where
  "group_rows k rs = filter (\<lambda>r. Town r = k) rs"

text \<open>\<^verbatim>\<open>.groupby(...)[need].sum(numeric_only=True).reset_index()\<close>\<close>

definition groupby_sum :: "town_counts list \<Rightarrow> town_counts list" where
  "groupby_sum rs =
     map (\<lambda>k. \<lparr>Town = k,
               hospitals = sum_list (map hospitals (group_rows k rs)),
               clinics = sum_list (map clinics (group_rows k rs)),
               pharmacies = sum_list (map pharmacies (group_rows k rs)),
               medical_centers = sum_list (map medical_centers (group_rows k rs))\<rparr>)
         (group_keys rs)"

text \<open>A resource column by its label; the script reads only the labels of \<open>need\<close>.\<close>

definition get_col :: "string \<Rightarrow> 'a town_counts_scheme \<Rightarrow> int" where
  "get_col c r =
     (if c = ''hospitals'' then hospitals r
      else if c = ''clinics'' then clinics r
      else if c = ''pharmacies'' then pharmacies r
      else medical_centers r)"

text \<open>\<^verbatim>\<open>t[need].sum(axis=1)\<close> for one row.\<close>

definition need_sum :: "'a town_counts_scheme \<Rightarrow> int" where
  "need_sum r = sum_list (map (\<lambda>c. get_col c r) need)"

record agg_row = town_counts +
  TOTAL :: int

text \<open>\<^verbatim>\<open>agg["TOTAL"] = agg[need].sum(axis=1)\<close>\<close>

definition add_TOTAL :: "town_counts \<Rightarrow> agg_row" where
  "add_TOTAL r =
     \<lparr>Town = Town r, hospitals = hospitals r, clinics = clinics r,
      pharmacies = pharmacies r, medical_centers = medical_centers r,
      TOTAL = need_sum r\<rparr>"

definition aggregate :: "town_counts list \<Rightarrow> agg_row list" where
  "aggregate rs = map add_TOTAL (groupby_sum rs)"

subsection \<open>The optional filter (lines 75 to 77)\<close>

text \<open>
  The \<^verbatim>\<open>.str\<close> accessor exists on a column of dtype object only. The Town column of
  \<^verbatim>\<open>agg\<close> has that dtype when it has no row or holds a string; a column of numbers
  and NaN only is numeric, and the accessor raises AttributeError.
\<close>

definition is_Str :: "cell \<Rightarrow> bool" where
  "is_Str c = (case c of Str s \<Rightarrow> True | _ \<Rightarrow> False)"

definition str_accessor_ok :: "'a town_counts_scheme list \<Rightarrow> bool" where
  "str_accessor_ok t = (t = [] \<or> list_ex (\<lambda>r. is_Str (Town r)) t)"

text \<open>
  \<^verbatim>\<open>str.contains(pat, case=False, na=False)\<close> on one cell; \<open>search\<close> is the compiled
  pattern. A cell that is not a string gives NaN, which \<^verbatim>\<open>na=False\<close> turns into False.
\<close>

definition contains :: "(string \<Rightarrow> bool) \<Rightarrow> cell \<Rightarrow> bool" where
  "contains search c = (case c of Str s \<Rightarrow> search s | _ \<Rightarrow> False)"

text \<open>
  Lines 75 to 77. \<^verbatim>\<open>str.contains\<close> has \<^verbatim>\<open>regex=True\<close> by default: the stripped
  filter text is compiled as a regular expression with IGNORECASE. \<open>re_compile\<close> is the
  library's engine: \<open>None\<close> when the pattern does not compile (\<^verbatim>\<open>re.error\<close>),
  otherwise the search predicate of the compiled pattern.
\<close>

definition apply_filter ::
  "(string \<Rightarrow> (string \<Rightarrow> bool) option) \<Rightarrow> string \<Rightarrow> agg_row list \<Rightarrow> error + agg_row list" where
  "apply_filter re_compile name_filter agg =
     (let pat = strip name_filter in
      if pat = [] then Inr agg
      else if \<not> str_accessor_ok agg then Inl AttributeError
      else (case re_compile pat of
              None \<Rightarrow> Inl RegexError
            | Some search \<Rightarrow> Inr (filter (\<lambda>r. contains search (Town r)) agg)))"

subsection \<open>Chart 1: the long table of the top towns (lines 82 to 90)\<close>

text \<open>
  \<^verbatim>\<open>sort_values(by, ascending=False)\<close> with its default \<^verbatim>\<open>kind="quicksort"\<close>: the
  rows in descending order of the key column. The library promises no order among rows
  of equal key; what it does there depends on the key column only and is the parameter
  \<open>tie\<close>: for the key column and a position, the rank of that position among the
  positions of equal key (positions of equal rank stay in table order).
\<close>

definition sort_values_desc :: "(int list \<Rightarrow> nat \<Rightarrow> nat) \<Rightarrow> ('a \<Rightarrow> int) \<Rightarrow> 'a list \<Rightarrow> 'a list" where
  "sort_values_desc tie key t =
     map (\<lambda>i. t ! i)
       (sort_key (\<lambda>i. (- key (t ! i), tie (map key t) i)) [0..<length t])"

text \<open>The stable descending sort: rows of equal TOTAL stay in table order.\<close>

definition stable_desc :: "agg_row list \<Rightarrow> agg_row list" where
  "stable_desc t = sort_key (\<lambda>r. - TOTAL r) t"

text \<open>
  \<^verbatim>\<open>t.nlargest(n, "TOTAL")\<close> with the default \<^verbatim>\<open>keep="first"\<close>. When \<open>n\<close>
  reaches the number of rows the library takes its slow path,
  \<^verbatim>\<open>sort_values(ascending=False).head(n)\<close>; otherwise it selects with a stable
  mergesort, so that of equal totals the first rows of \<open>t\<close> are kept, in their order.
\<close>

definition nlargest :: "(int list \<Rightarrow> nat \<Rightarrow> nat) \<Rightarrow> nat \<Rightarrow> agg_row list \<Rightarrow> agg_row list" where
  "nlargest tie n t =
     (if length t \<le> n then take n (sort_values_desc tie TOTAL t)
      else take n (stable_desc t))"

text \<open>\<^verbatim>\<open>.drop(columns="TOTAL")\<close> for one row.\<close>

definition drop_TOTAL :: "agg_row \<Rightarrow> town_counts" where
  "drop_TOTAL r =
     \<lparr>Town = Town r, hospitals = hospitals r, clinics = clinics r,
      pharmacies = pharmacies r, medical_centers = medical_centers r\<rparr>"

definition top20 :: "(int list \<Rightarrow> nat \<Rightarrow> nat) \<Rightarrow> agg_row list \<Rightarrow> town_counts list" where
  "top20 tie agg_filtered =
     map drop_TOTAL (nlargest tie (min 20 (length agg_filtered)) agg_filtered)"

text \<open>A row of the long table; a \<open>Resource\<close> of \<open>None\<close> is NaN.\<close>

record long_row =
  Town_id :: cell
  Resource :: "string option"
  count :: int

text \<open>
  \<^verbatim>\<open>melt(id_vars="Town", value_vars=need, var_name="Resource", value_name="count")\<close>:
  one block of rows per label of \<open>need\<close>, each block in the order of the table.
\<close>

definition melt :: "town_counts list \<Rightarrow> long_row list" where
  "melt t =
     concat (map (\<lambda>v. map (\<lambda>r. \<lparr>Town_id = Town r, Resource = Some v, count = get_col v r\<rparr>) t) need)"

definition pretty :: "(string \<times> string) list" where
  "pretty =
   [(''hospitals'', ''Hospitals''),
    (''clinics'', ''Clinics''),
    (''pharmacies'', ''Pharmacies''),
    (''medical_centers'', ''Medical Centers'')]"

text \<open>\<^verbatim>\<open>long["Resource"].map(pretty)\<close>: a label that is no key of the dictionary becomes NaN.\<close>

definition map_pretty :: "long_row list \<Rightarrow> long_row list" where
  "map_pretty l = map (\<lambda>r. r\<lparr>Resource := Option.bind (Resource r) (map_of pretty)\<rparr>) l"

text \<open>
  Line 89: TOTAL is computed again from the four columns, the rows are sorted by it with
  \<^verbatim>\<open>sort_values("TOTAL", ascending=False)\<close>, and the Town column is read off as a
  list.
\<close>

definition order :: "(int list \<Rightarrow> nat \<Rightarrow> nat) \<Rightarrow> town_counts list \<Rightarrow> cell list" where
  "order tie t = map Town (sort_values_desc tie need_sum t)"

text \<open>
  \<^verbatim>\<open>pd.Categorical(values, categories=cats, ordered=True)\<close>: ValueError when a category
  is NaN or occurs twice; a value that is no category becomes NaN.
\<close>

definition Categorical :: "cell list \<Rightarrow> cell list \<Rightarrow> error + cell list" where
  "Categorical vals cats =
     (if NaN \<in> set cats \<or> \<not> distinct cats then Inl ValueError
      else Inr (map (\<lambda>v. if v \<in> set cats then v else NaN) vals))"

text \<open>The long table as it is handed to the bar chart: its rows and the order of its towns.\<close>

record bar_table =
  long_rows :: "long_row list"
  categories :: "cell list"

definition set_Town :: "long_row list \<Rightarrow> cell list \<Rightarrow> long_row list" where
  "set_Town l towns = map (\<lambda>(r, t). r\<lparr>Town_id := t\<rparr>) (zip l towns)"

definition bar_shape :: "(int list \<Rightarrow> nat \<Rightarrow> nat) \<Rightarrow> agg_row list \<Rightarrow> error + bar_table" where
  "bar_shape tie agg_filtered =
     (let t = top20 tie agg_filtered;
          long_top20 = map_pretty (melt t);
          ord = order tie t
      in case Categorical (map Town_id long_top20) ord of
           Inl e \<Rightarrow> Inl e
         | Inr towns \<Rightarrow> Inr \<lparr>long_rows = set_Town long_top20 towns, categories = ord\<rparr>)"

subsection \<open>Chart 2: the heatmap matrix (lines 104 to 105)\<close>

definition topN :: "(int list \<Rightarrow> nat \<Rightarrow> nat) \<Rightarrow> nat \<Rightarrow> agg_row list \<Rightarrow> town_counts list" where
  "topN tie n_towns agg_filtered =
     map drop_TOTAL (nlargest tie (min n_towns (length agg_filtered)) agg_filtered)"

record matrix =
  index :: "cell list"
  mat_columns :: "string list"
  mat_values :: "int list list"

text \<open>\<^verbatim>\<open>t.set_index("Town")[need].rename(columns=pretty)\<close>\<close>

definition mat :: "town_counts list \<Rightarrow> matrix" where
  "mat t =
     \<lparr>index = map Town t,
      mat_columns = map (\<lambda>c. case map_of pretty c of Some p \<Rightarrow> p | None \<Rightarrow> c) need,
      mat_values = map (\<lambda>r. map (\<lambda>c. get_col c r) need) t\<rparr>"

subsection \<open>The whole run\<close>

text \<open>
  The two sidebar inputs: the filter text and the value of the heatmap slider. The run
  is sequential, so an error of an earlier step leaves the later steps undone.
\<close>

record params =
  name_filter :: string
  n_towns :: nat

record charts =
  bar :: bar_table
  heat :: matrix

definition bind_err :: "error + 'a \<Rightarrow> ('a \<Rightarrow> error + 'b) \<Rightarrow> error + 'b" where
  "bind_err x f = (case x of Inl e \<Rightarrow> Inl e | Inr v \<Rightarrow> f v)"

definition shapes :: "(int list \<Rightarrow> nat \<Rightarrow> nat) \<Rightarrow> nat \<Rightarrow> agg_row list \<Rightarrow> error + charts" where
  "shapes tie n agg_filtered =
     bind_err (bar_shape tie agg_filtered)
       (\<lambda>b. Inr \<lparr>bar = b, heat = mat (topN tie n agg_filtered)\<rparr>)"

definition pipeline ::
  "(string \<Rightarrow> int option) \<Rightarrow> (string \<Rightarrow> (string \<Rightarrow> bool) option) \<Rightarrow> (int list \<Rightarrow> nat \<Rightarrow> nat)
     \<Rightarrow> params \<Rightarrow> frame \<Rightarrow> error + charts" where
  "pipeline parse re_compile tie p df =
     bind_err (load parse df)
       (\<lambda>rs. bind_err (apply_filter re_compile (name_filter p) (aggregate rs))
          (shapes tie (n_towns p)))"

subsection \<open>The shaping statements on a store of objects\<close>

text \<open>
  pandas frames are mutable objects and Python variables hold references to them. To
  say which object a statement changes, lines 75 to 105 are written once more as a
  program on a store: a heap of objects and the next free reference. A statement that
  builds a frame (\<^verbatim>\<open>copy\<close>, boolean indexing, \<^verbatim>\<open>nlargest\<close>, \<^verbatim>\<open>drop\<close>,
  \<^verbatim>\<open>melt\<close>, \<^verbatim>\<open>set_index\<close>, \<^verbatim>\<open>rename\<close>) allocates; a column assignment
  \<^verbatim>\<open>t[c] = ...\<close> overwrites the object its variable refers to.
\<close>

datatype obj =
  AggFrame "agg_row list"
| CountsFrame "town_counts list"
| LongFrame "long_row list" "cell list option"
| MatFrame matrix

record store =
  heap :: "nat \<Rightarrow> obj option"
  next_ref :: nat

type_synonym 'a prog = "store \<Rightarrow> (error + 'a) \<times> store"

definition ret :: "'a \<Rightarrow> 'a prog" where
  "ret v s = (Inr v, s)"

definition lift :: "error + 'a \<Rightarrow> 'a prog" where
  "lift x s = (x, s)"

definition bind_prog :: "'a prog \<Rightarrow> ('a \<Rightarrow> 'b prog) \<Rightarrow> 'b prog" where
  "bind_prog f g s = (case f s of (Inl e, s') \<Rightarrow> (Inl e, s') | (Inr v, s') \<Rightarrow> g v s')"

definition new_frame :: "obj \<Rightarrow> nat prog" where
  "new_frame ob s =
     (Inr (next_ref s), s\<lparr>heap := (heap s)(next_ref s \<mapsto> ob), next_ref := Suc (next_ref s)\<rparr>)"

definition write_frame :: "nat \<Rightarrow> obj \<Rightarrow> unit prog" where
  "write_frame r ob s = (Inr (), s\<lparr>heap := (heap s)(r \<mapsto> ob)\<rparr>)"

definition read_agg :: "nat \<Rightarrow> agg_row list prog" where
  "read_agg r s = (case heap s r of Some (AggFrame t) \<Rightarrow> (Inr t, s) | _ \<Rightarrow> (Inl TypeError, s))"

definition read_counts :: "nat \<Rightarrow> town_counts list prog" where
  "read_counts r s = (case heap s r of Some (CountsFrame t) \<Rightarrow> (Inr t, s) | _ \<Rightarrow> (Inl TypeError, s))"

definition read_long :: "nat \<Rightarrow> long_row list prog" where
  "read_long r s = (case heap s r of Some (LongFrame l c) \<Rightarrow> (Inr l, s) | _ \<Rightarrow> (Inl TypeError, s))"

text \<open>
  Lines 75 to 105, one binding per statement; \<open>agg\<close> is the reference held by the
  variable \<^verbatim>\<open>agg\<close>. The result is the pair of references held by
  \<^verbatim>\<open>long_top20\<close> and \<^verbatim>\<open>mat\<close>.
\<close>

definition shape_script ::
  "(string \<Rightarrow> (string \<Rightarrow> bool) option) \<Rightarrow> (int list \<Rightarrow> nat \<Rightarrow> nat) \<Rightarrow> params \<Rightarrow> nat
     \<Rightarrow> (nat \<times> nat) prog" where
  "shape_script re_compile tie p agg =
     bind_prog (read_agg agg) (\<lambda>a.
     bind_prog (new_frame (AggFrame a)) (\<lambda>copy_ref.
     bind_prog
       (if strip (name_filter p) = [] then ret copy_ref
        else bind_prog (read_agg copy_ref) (\<lambda>c.
             bind_prog (lift (apply_filter re_compile (name_filter p) c)) (\<lambda>f.
             new_frame (AggFrame f)))) (\<lambda>agg_filtered.
     bind_prog (read_agg agg_filtered) (\<lambda>af.
     bind_prog (new_frame (CountsFrame (top20 tie af))) (\<lambda>top20_ref.
     bind_prog (read_counts top20_ref) (\<lambda>t.
     bind_prog (new_frame (LongFrame (melt t) None)) (\<lambda>long_top20.
     bind_prog (read_long long_top20) (\<lambda>l.
     bind_prog (write_frame long_top20 (LongFrame (map_pretty l) None)) (\<lambda>_.
     bind_prog (read_long long_top20) (\<lambda>l'.
     bind_prog (lift (Categorical (map Town_id l') (order tie t))) (\<lambda>towns.
     bind_prog (write_frame long_top20 (LongFrame (set_Town l' towns) (Some (order tie t)))) (\<lambda>_.
     bind_prog (read_agg agg_filtered) (\<lambda>af'.
     bind_prog (new_frame (CountsFrame (topN tie (n_towns p) af'))) (\<lambda>topN_ref.
     bind_prog (read_counts topN_ref) (\<lambda>tn.
     bind_prog (new_frame (MatFrame (mat tn))) (\<lambda>mat_ref.
     ret (long_top20, mat_ref)))))))))))))))))"

subsection \<open>Instances of the library parsers and sample tables\<close>

text \<open>
  The theorems hold for every numeric parser, every regular expression engine and every
  tie order. To run the model on sample tables, \<open>parse_decimal\<close> reads the integer
  literals (an optional minus sign and decimal digits) and rejects every other string,
  and \<open>literal_search\<close> is the engine on patterns without metacharacters: a search
  for the pattern as a substring, ASCII letters compared without case. The tie order
  \<open>swap_ties\<close> leaves a column that already descends as it is and otherwise lets
  the positions 2 and 3 trade places among their equals.
\<close>

definition swap_ties :: "int list \<Rightarrow> nat \<Rightarrow> nat" where
  "swap_ties keys i =
     (if sorted (rev keys) then i else if i = 2 then 3 else if i = 3 then 2 else i)"

definition digit_of :: "char \<Rightarrow> nat option" where
  "digit_of c = (let n = (of_char c :: nat) in if 48 \<le> n \<and> n \<le> 57 then Some (n - 48) else None)"

fun digits :: "nat \<Rightarrow> string \<Rightarrow> nat option" where
  "digits acc [] = Some acc"
| "digits acc (c # cs) = (case digit_of c of None \<Rightarrow> None | Some d \<Rightarrow> digits (10 * acc + d) cs)"

definition parse_decimal :: "string \<Rightarrow> int option" where
  "parse_decimal s =
     (case s of
        [] \<Rightarrow> None
      | c # cs \<Rightarrow>
          if c = CHR ''-'' then (if cs = [] then None else map_option (\<lambda>n. - int n) (digits 0 cs))
          else map_option int (digits 0 s))"

definition lower :: "char \<Rightarrow> char" where
  "lower c = (let n = (of_char c :: nat) in if 65 \<le> n \<and> n \<le> 90 then char_of (n + 32) else c)"

fun starts_with :: "string \<Rightarrow> string \<Rightarrow> bool" where
  "starts_with [] s = True"
| "starts_with (p # ps) [] = False"
| "starts_with (p # ps) (c # cs) = (p = c \<and> starts_with ps cs)"

fun has_substring :: "string \<Rightarrow> string \<Rightarrow> bool" where
  "has_substring p [] = (p = [])"
| "has_substring p (c # cs) = (starts_with p (c # cs) \<or> has_substring p cs)"

definition literal_search :: "string \<Rightarrow> (string \<Rightarrow> bool) option" where
  "literal_search pat = Some (\<lambda>s. has_substring (map lower pat) (map lower s))"

text \<open>
  A sample CSV: labels with stray whitespace, verbose and short resource labels, an
  unused column, repeated towns, a row without a town, unparsable and empty cells.
\<close>

definition sample_df :: frame where
  "sample_df =
     \<lparr>columns =
        ['' Town '',
         ''Type and size of medical resources - Hospitals'',
         ''Type  and size of medical   resources - Clinics'',
         ''pharmacies'',
         ''Type and size of medical resources - Medical Centers '',
         ''Total number of care centers''],
      rows =
        [[Str ''Beirut'', Str ''1'', Num 2, Num 3, Num 0, Num 9],
         [Str ''Aley'', Str ''n/a'', Num 4, Num 5, NaN, Num 1],
         [Str ''Beirut'', Str ''0'', Num 0, Num 1, Num 0, Num 2],
         [NaN, Str ''2'', Num 0, Num 0],
         [Str ''Zahle'', Str ''unknown'', Num 1, Num 8, Num 1, Num 0]]\<rparr>"

text \<open>The same table without its Town column.\<close>

definition no_town_df :: frame where
  "no_town_df =
     \<lparr>columns =
        [''Type and size of medical resources - Hospitals'', ''clinics'', ''pharmacies'',
         ''medical_centers''],
      rows = [[Num 1, Num 2, Num 3, Num 0]]\<rparr>"

text \<open>A table with a negative count.\<close>

definition negative_df :: frame where
  "negative_df =
     \<lparr>columns = [''Town'', ''hospitals'', ''clinics'', ''pharmacies'', ''medical_centers''],
      rows = [[Str ''Aley'', Num (- 5), Num 0, Num 0, Num 0]]\<rparr>"

text \<open>The records and the aggregate of the sample.\<close>

definition sample_rows :: "town_counts list" where
  "sample_rows =
     [\<lparr>Town = Str ''Beirut'', hospitals = 1, clinics = 2, pharmacies = 3, medical_centers = 0\<rparr>,
      \<lparr>Town = Str ''Aley'', hospitals = 0, clinics = 4, pharmacies = 5, medical_centers = 0\<rparr>,
      \<lparr>Town = Str ''Beirut'', hospitals = 0, clinics = 0, pharmacies = 1, medical_centers = 0\<rparr>,
      \<lparr>Town = NaN, hospitals = 2, clinics = 0, pharmacies = 0, medical_centers = 0\<rparr>,
      \<lparr>Town = Str ''Zahle'', hospitals = 0, clinics = 1, pharmacies = 8, medical_centers = 1\<rparr>]"

definition sample_agg :: "agg_row list" where
  "sample_agg =
     [\<lparr>Town = Str ''Aley'', hospitals = 0, clinics = 4, pharmacies = 5, medical_centers = 0,
       TOTAL = 9\<rparr>,
      \<lparr>Town = Str ''Beirut'', hospitals = 1, clinics = 2, pharmacies = 4, medical_centers = 0,
       TOTAL = 7\<rparr>,
      \<lparr>Town = Str ''Zahle'', hospitals = 0, clinics = 1, pharmacies = 8, medical_centers = 1,
       TOTAL = 10\<rparr>,
      \<lparr>Town = NaN, hospitals = 2, clinics = 0, pharmacies = 0, medical_centers = 0,
       TOTAL = 2\<rparr>]"

text \<open>Records of five towns, two pairs of which have equal totals.\<close>

definition tie_rows :: "town_counts list" where
  "tie_rows =
     [\<lparr>Town = Str ''Zahle'', hospitals = 0, clinics = 1, pharmacies = 8, medical_centers = 1\<rparr>,
      \<lparr>Town = Str ''Aley'', hospitals = 0, clinics = 4, pharmacies = 5, medical_centers = 0\<rparr>,
      \<lparr>Town = Str ''Saida'', hospitals = 3, clinics = 3, pharmacies = 3, medical_centers = 0\<rparr>,
      \<lparr>Town = Str ''Beirut'', hospitals = 1, clinics = 2, pharmacies = 4, medical_centers = 0\<rparr>,
      \<lparr>Town = Str ''Baalbek'', hospitals = 2, clinics = 2, pharmacies = 5, medical_centers = 1\<rparr>]"

text \<open>Five towns, four of them with the same total.\<close>

definition tied_rows :: "town_counts list" where
  "tied_rows =
     [\<lparr>Town = Str ''T00'', hospitals = 1, clinics = 0, pharmacies = 0, medical_centers = 0\<rparr>,
      \<lparr>Town = Str ''T01'', hospitals = 1, clinics = 1, pharmacies = 3, medical_centers = 0\<rparr>,
      \<lparr>Town = Str ''T02'', hospitals = 0, clinics = 2, pharmacies = 3, medical_centers = 0\<rparr>,
      \<lparr>Town = Str ''T03'', hospitals = 1, clinics = 2, pharmacies = 2, medical_centers = 0\<rparr>,
      \<lparr>Town = Str ''T04'', hospitals = 0, clinics = 1, pharmacies = 3, medical_centers = 1\<rparr>]"


text \<open>A store in which reference 0 holds the aggregate of the sample.\<close>

definition sample_store :: store where
  "sample_store = \<lparr>heap = (\<lambda>r. None)(0 \<mapsto> AggFrame sample_agg), next_ref = 1\<rparr>"

section \<open>Properties\<close>

subsection \<open>The aggregate\<close>

lemma need_sum_eq: "need_sum r = hospitals r + clinics r + pharmacies r + medical_centers r"
  by (simp add: need_sum_def need_def get_col_def)

lemma map_Town_aggregate: "map Town (aggregate rs) = group_keys rs"
  by (simp add: aggregate_def groupby_sum_def add_TOTAL_def comp_def)

lemma distinct_group_keys: "distinct (group_keys rs)"
  by (simp add: group_keys_def)

lemma set_group_keys: "set (group_keys rs) = Town ` set rs"
  by (simp add: group_keys_def)

text \<open>
  Claim C1. Every row of the per-town aggregate has TOTAL equal to the sum of its four
  resource columns, each of which is the sum of that column over the input rows of the
  town; TOTAL is a function of the four columns (dropping it and computing it again
  gives the row back).
\<close>

theorem aggregate_TOTAL:
  assumes "r \<in> set (aggregate rs)"
  shows "TOTAL r = hospitals r + clinics r + pharmacies r + medical_centers r
       \<and> hospitals r = sum_list (map hospitals (group_rows (Town r) rs))
       \<and> clinics r = sum_list (map clinics (group_rows (Town r) rs))
       \<and> pharmacies r = sum_list (map pharmacies (group_rows (Town r) rs))
       \<and> medical_centers r = sum_list (map medical_centers (group_rows (Town r) rs))
       \<and> add_TOTAL (drop_TOTAL r) = r"
proof -
  from assms obtain k where r: "r = add_TOTAL
     \<lparr>Town = k,
      hospitals = sum_list (map hospitals (group_rows k rs)),
      clinics = sum_list (map clinics (group_rows k rs)),
      pharmacies = sum_list (map pharmacies (group_rows k rs)),
      medical_centers = sum_list (map medical_centers (group_rows k rs))\<rparr>"
    by (auto simp: aggregate_def groupby_sum_def)
  show ?thesis
    by (simp add: r add_TOTAL_def drop_TOTAL_def need_sum_eq)
qed

theorem aggregate_TOTAL_witness:
  "\<lparr>Town = Str ''Beirut'', hospitals = 1, clinics = 2, pharmacies = 4, medical_centers = 0,
       TOTAL = 7\<rparr> \<in> set (aggregate sample_rows) \<and> (7::int) = 1 + 2 + 4 + 0"
proof -
  have agg: "aggregate sample_rows = sample_agg" by code_simp
  have h: "\<lparr>Town = Str ''Beirut'', hospitals = 1, clinics = 2, pharmacies = 4, medical_centers = 0,
       TOTAL = 7\<rparr> \<in> set (aggregate sample_rows)"
    by (simp add: agg sample_agg_def)
  show ?thesis using h aggregate_TOTAL [OF h] by simp
qed

lemma indicator_absent:
  "y \<notin> set ks \<Longrightarrow> sum_list (map (\<lambda>k. if y = k then 1 else 0) ks) = (0::nat)"
  by (induction ks) auto

lemma indicator_once:
  "distinct ks \<Longrightarrow> y \<in> set ks \<Longrightarrow> sum_list (map (\<lambda>k. if y = k then 1 else 0) ks) = (1::nat)"
  by (induction ks) (auto simp: indicator_absent)

lemma count_partition:
  "distinct ks \<Longrightarrow> f ` set xs \<subseteq> set ks \<Longrightarrow>
   sum_list (map (\<lambda>k. length (filter (\<lambda>r. f r = k) xs)) ks) = length xs"
proof (induction xs)
  case Nil
  then show ?case by simp
next
  case (Cons x xs)
  have "sum_list (map (\<lambda>k. length (filter (\<lambda>r. f r = k) (x # xs))) ks)
      = sum_list (map (\<lambda>k. (if f x = k then 1 else 0) + length (filter (\<lambda>r. f r = k) xs)) ks)"
    by (rule arg_cong [where f = sum_list]) (rule map_cong, auto)
  also have "\<dots> = sum_list (map (\<lambda>k. if f x = k then 1 else 0) ks)
                + sum_list (map (\<lambda>k. length (filter (\<lambda>r. f r = k) xs)) ks)"
    by (simp add: sum_list_addf)
  also have "sum_list (map (\<lambda>k. if f x = k then 1 else 0) ks) = (1::nat)"
    using Cons.prems by (simp add: indicator_once)
  finally show ?case using Cons by simp
qed

lemma filter_key_absent:
  "y \<notin> f ` set xs \<Longrightarrow> filter (\<lambda>a. f a = y) xs = []"
  by (induction xs) auto

lemma one_row_per_key:
  "distinct (map f xs) \<Longrightarrow> y \<in> f ` set xs \<Longrightarrow> length (filter (\<lambda>a. f a = y) xs) = 1"
  by (induction xs) (auto simp: filter_key_absent)

text \<open>
  Claim C4. Grouping by Town partitions the input rows: the group sizes add up to the
  number of input rows, the Town column of the aggregate is the duplicate-free list of
  the Town values of the input, so every Town value of the input has exactly one
  aggregate row, and the aggregate has a row for NaN exactly when some input row has no
  Town.
\<close>

theorem groupby_partition:
  "sum_list (map (\<lambda>k. length (group_rows k rs)) (group_keys rs)) = length rs
   \<and> map Town (aggregate rs) = group_keys rs
   \<and> distinct (map Town (aggregate rs))
   \<and> set (map Town (aggregate rs)) = Town ` set rs
   \<and> (\<forall>r \<in> set rs. length (filter (\<lambda>a. Town a = Town r) (aggregate rs)) = 1)
   \<and> ((\<exists>r \<in> set rs. Town r = NaN) = (\<exists>a \<in> set (aggregate rs). Town a = NaN))"
proof -
  have keys: "map Town (aggregate rs) = group_keys rs"
    by (rule map_Town_aggregate)
  have part: "sum_list (map (\<lambda>k. length (group_rows k rs)) (group_keys rs)) = length rs"
    unfolding group_rows_def
    by (rule count_partition) (simp_all add: distinct_group_keys set_group_keys)
  have dist: "distinct (map Town (aggregate rs))"
    by (simp add: keys distinct_group_keys)
  have towns: "set (map Town (aggregate rs)) = Town ` set rs"
    by (simp only: keys set_group_keys)
  have one: "length (filter (\<lambda>a. Town a = Town r) (aggregate rs)) = 1" if "r \<in> set rs" for r
  proof -
    have "Town r \<in> Town ` set (aggregate rs)" using that towns by auto
    then show ?thesis using dist by (rule one_row_per_key [rotated])
  qed
  have nan: "(\<exists>r \<in> set rs. Town r = NaN) = (\<exists>a \<in> set (aggregate rs). Town a = NaN)"
  proof -
    have "(\<exists>r \<in> set rs. Town r = NaN) = (NaN \<in> Town ` set rs)" by force
    also have "\<dots> = (NaN \<in> set (map Town (aggregate rs)))" by (simp only: towns)
    also have "\<dots> = (\<exists>a \<in> set (aggregate rs). Town a = NaN)" by force
    finally show ?thesis .
  qed
  show ?thesis using keys part dist towns one nan by blast
qed

theorem groupby_partition_witness:
  "sum_list (map (\<lambda>k. length (group_rows k sample_rows)) (group_keys sample_rows)) = 5
   \<and> map Town (aggregate sample_rows) = [Str ''Aley'', Str ''Beirut'', Str ''Zahle'', NaN]
   \<and> length (filter (\<lambda>a. Town a = Str ''Beirut'') (aggregate sample_rows)) = 1
   \<and> length (filter (\<lambda>a. Town a = NaN) (aggregate sample_rows)) = 1"
proof -
  have len: "length sample_rows = 5" by (simp add: sample_rows_def)
  have keys: "group_keys sample_rows = [Str ''Aley'', Str ''Beirut'', Str ''Zahle'', NaN]"
    by code_simp
  have b: "\<lparr>Town = Str ''Beirut'', hospitals = 1, clinics = 2, pharmacies = 3, medical_centers = 0\<rparr>
             \<in> set sample_rows"
    by (simp add: sample_rows_def)
  have n: "\<lparr>Town = NaN, hospitals = 2, clinics = 0, pharmacies = 0, medical_centers = 0\<rparr>
             \<in> set sample_rows"
    by (simp add: sample_rows_def)
  from groupby_partition [of sample_rows] len keys b n show ?thesis
    by (metis town_counts.select_convs(1))
qed

subsection \<open>Loading\<close>

lemma load_cases:
  "load parse df =
     (if ''Town'' \<notin> set (renamed_columns df) \<or> (\<exists>c \<in> set need. c \<notin> set (renamed_columns df))
      then Inl MissingColumns
      else if \<exists>c \<in> set need. 1 < count_list (renamed_columns df) c then Inl TypeError
      else if 1 < count_list (renamed_columns df) ''Town'' then Inl ValueError
      else Inr (map (coerce_row parse (renamed_columns df)) (rows df)))"
  by (simp add: load_def Let_def list_ex_iff)

lemma renamed_columns_rows [simp]: "renamed_columns (df\<lparr>rows := rws\<rparr>) = renamed_columns df"
  by (simp add: renamed_columns_def)

lemma get_col_coerce_row:
  "c \<in> set need \<Longrightarrow> get_col c (coerce_row parse cols r) = coerce parse (cell_at r (index_of c cols))"
  by (auto simp: need_def get_col_def coerce_row_def)

text \<open>
  Claim C2, as amended. When the table loads, it has one record per input row, and each
  of the four resource columns holds the number \<^verbatim>\<open>pd.to_numeric\<close> reads in the
  cell, whatever its sign, and 0 where the cell does not parse as a number; whether the
  table loads does not depend on the cells or on the parser, so no cell content raises
  an error.
\<close>

theorem load_coerces:
  assumes "load parse df = Inr rs"
  shows "length rs = length (rows df)
       \<and> (\<forall>i < length rs. \<forall>c \<in> set need.
            get_col c (rs ! i) =
              (case to_numeric parse (cell_at (rows df ! i) (index_of c (renamed_columns df))) of
                 Some n \<Rightarrow> n | None \<Rightarrow> 0))
       \<and> (\<exists>rs'. load parse' (df\<lparr>rows := rws\<rparr>) = Inr rs')"
proof -
  from assms have rs: "rs = map (coerce_row parse (renamed_columns df)) (rows df)"
    by (simp add: load_cases split: if_splits)
  have len: "length rs = length (rows df)" by (simp add: rs)
  have vals: "get_col c (rs ! i) =
      (case to_numeric parse (cell_at (rows df ! i) (index_of c (renamed_columns df))) of
         Some n \<Rightarrow> n | None \<Rightarrow> 0)" if "i < length rs" "c \<in> set need" for i c
    using that by (simp add: rs get_col_coerce_row coerce_def fillna0_def)
  have again: "\<exists>rs'. load parse' (df\<lparr>rows := rws\<rparr>) = Inr rs'"
    using assms by (simp add: load_cases split: if_splits)
  show ?thesis using len vals again by blast
qed

theorem load_coerces_witness:
  "load parse_decimal sample_df = Inr sample_rows
   \<and> length sample_rows = length (rows sample_df)
   \<and> cell_at (rows sample_df ! 1) (index_of ''hospitals'' (renamed_columns sample_df)) = Str ''n/a''
   \<and> to_numeric parse_decimal (Str ''n/a'') = None
   \<and> get_col ''hospitals'' (sample_rows ! 1) = 0"
proof -
  have l: "load parse_decimal sample_df = Inr sample_rows" by code_simp
  have c: "cell_at (rows sample_df ! 1) (index_of ''hospitals'' (renamed_columns sample_df)) = Str ''n/a''"
    by code_simp
  have p: "to_numeric parse_decimal (Str ''n/a'') = None" by code_simp
  have i: "1 < length sample_rows" by (simp add: sample_rows_def)
  have n: "''hospitals'' \<in> set need" by (simp add: need_def)
  from load_coerces [OF l, of parse_decimal "[]"] i n c p
  have "length sample_rows = length (rows sample_df) \<and> get_col ''hospitals'' (sample_rows ! 1) = 0"
    by (metis option.simps(4))
  with l c p show ?thesis by simp
qed

text \<open>
  Claim C2 as stated fails: nothing clips a negative number, so the loaded hospitals
  column of a table with the cell \<open>- 5\<close> holds \<open>- 5\<close>.
\<close>

theorem load_negative_counterexample:
  "load parse_decimal negative_df =
     Inr [\<lparr>Town = Str ''Aley'', hospitals = - 5, clinics = 0, pharmacies = 0, medical_centers = 0\<rparr>]
   \<and> hospitals \<lparr>Town = Str ''Aley'', hospitals = - 5, clinics = 0, pharmacies = 0, medical_centers = 0\<rparr> < 0"
  by code_simp

lemma apply_filter_not_missing: "apply_filter re f agg \<noteq> Inl MissingColumns"
  by (simp add: apply_filter_def Let_def split: option.splits)

lemma Categorical_not_missing: "Categorical v c \<noteq> Inl MissingColumns"
  by (simp add: Categorical_def)

lemma shapes_not_missing: "shapes tie n t \<noteq> Inl MissingColumns"
  by (auto simp: shapes_def bind_err_def bar_shape_def Let_def Categorical_def split: sum.splits if_splits)

text \<open>
  Claim C3. The run ends with the missing-columns error exactly when, after
  normalisation and renaming, the Town label or one of the four resource labels is
  absent; the result is then the error alone, with no aggregate and no chart table.
\<close>

theorem missing_columns_halt:
  "(load parse df = Inl MissingColumns) =
     (''Town'' \<notin> set (renamed_columns df) \<or> (\<exists>c \<in> set need. c \<notin> set (renamed_columns df)))
   \<and> (pipeline parse re tie p df = Inl MissingColumns) =
     (''Town'' \<notin> set (renamed_columns df) \<or> (\<exists>c \<in> set need. c \<notin> set (renamed_columns df)))"
proof -
  have l: "(load parse df = Inl MissingColumns) =
     (''Town'' \<notin> set (renamed_columns df) \<or> (\<exists>c \<in> set need. c \<notin> set (renamed_columns df)))"
    by (simp add: load_cases)
  have "(pipeline parse re tie p df = Inl MissingColumns) = (load parse df = Inl MissingColumns)"
    using apply_filter_not_missing shapes_not_missing
    by (auto simp: pipeline_def bind_err_def split: sum.splits)
  with l show ?thesis by simp
qed

theorem missing_columns_halt_witness:
  "''Town'' \<notin> set (renamed_columns no_town_df)
   \<and> load parse_decimal no_town_df = Inl MissingColumns
   \<and> pipeline parse_decimal literal_search swap_ties \<lparr>name_filter = '''', n_towns = 30\<rparr>
       no_town_df
       = Inl MissingColumns"
proof -
  have c: "''Town'' \<notin> set (renamed_columns no_town_df)" by code_simp
  with missing_columns_halt [of parse_decimal no_town_df literal_search swap_ties
      "\<lparr>name_filter = '''', n_towns = 30\<rparr>"]
  show ?thesis by simp
qed

subsection \<open>The filter\<close>

lemma contains_is_Str: "contains search c \<Longrightarrow> is_Str c"
  by (cases c) (simp_all add: contains_def is_Str_def)

lemma contains_NaN [simp]: "\<not> contains search NaN"
  by (simp add: contains_def)

lemma str_accessor_ok_filter:
  "str_accessor_ok (filter (\<lambda>r. contains search (Town r)) agg)"
proof (cases "filter (\<lambda>r. contains search (Town r)) agg")
  case Nil
  then show ?thesis by (simp add: str_accessor_ok_def)
next
  case (Cons r rs)
  then have "r \<in> set (filter (\<lambda>r. contains search (Town r)) agg)" by simp
  then have "is_Str (Town r)" by (auto intro: contains_is_Str)
  with Cons show ?thesis by (simp add: str_accessor_ok_def)
qed

lemma apply_filter_blank: "strip f = [] \<Longrightarrow> apply_filter re f agg = Inr agg"
  by (simp add: apply_filter_def)

lemma apply_filter_active:
  "strip f \<noteq> [] \<Longrightarrow> apply_filter re f agg =
     (if \<not> str_accessor_ok agg then Inl AttributeError
      else case re (strip f) of
             None \<Rightarrow> Inl RegexError
           | Some search \<Rightarrow> Inr (filter (\<lambda>r. contains search (Town r)) agg))"
  by (simp add: apply_filter_def)

text \<open>
  Claim C8. Filtering twice with the same text gives what filtering once gives (the
  table, or the error the first filtering stops with), and the empty text, like any
  text of whitespace only, leaves the table as it is.
\<close>

theorem filter_idempotent:
  "bind_err (apply_filter re f agg) (apply_filter re f) = apply_filter re f agg
   \<and> apply_filter re [] agg = Inr agg
   \<and> (strip f = [] \<longrightarrow> apply_filter re f agg = Inr agg)"
proof -
  have idem: "bind_err (apply_filter re f agg) (apply_filter re f) = apply_filter re f agg"
  proof (cases "strip f = []")
    case True
    then show ?thesis by (simp add: apply_filter_blank bind_err_def)
  next
    case False
    show ?thesis
    proof (cases "apply_filter re f agg")
      case (Inl e)
      then show ?thesis by (simp add: bind_err_def)
    next
      case (Inr t)
      with False obtain search where s: "re (strip f) = Some search"
        and t: "t = filter (\<lambda>r. contains search (Town r)) agg"
        by (auto simp: apply_filter_active split: if_splits option.splits)
      have "apply_filter re f t = Inr t"
        using False s by (simp add: apply_filter_active t str_accessor_ok_filter)
      with Inr show ?thesis by (simp add: bind_err_def)
    qed
  qed
  have "strip [] = []" by (simp add: strip_def)
  then have "apply_filter re [] agg = Inr agg" by (rule apply_filter_blank)
  with idem show ?thesis by (simp add: apply_filter_blank)
qed


theorem filter_idempotent_witness:
  "strip '' '' = [] \<and> apply_filter literal_search '' '' sample_agg = Inr sample_agg
   \<and> apply_filter literal_search '' EI'' sample_agg =
       Inr [\<lparr>Town = Str ''Beirut'', hospitals = 1, clinics = 2, pharmacies = 4, medical_centers = 0,
             TOTAL = 7\<rparr>]
   \<and> apply_filter literal_search '' EI''
        [\<lparr>Town = Str ''Beirut'', hospitals = 1, clinics = 2, pharmacies = 4, medical_centers = 0,
          TOTAL = 7\<rparr>] =
       Inr [\<lparr>Town = Str ''Beirut'', hospitals = 1, clinics = 2, pharmacies = 4, medical_centers = 0,
             TOTAL = 7\<rparr>]"
proof -
  have b: "strip '' '' = []" by code_simp
  have e: "apply_filter literal_search '' EI'' sample_agg =
       Inr [\<lparr>Town = Str ''Beirut'', hospitals = 1, clinics = 2, pharmacies = 4, medical_centers = 0,
             TOTAL = 7\<rparr>]" by code_simp
  from filter_idempotent [of literal_search "'' ''" sample_agg] b
  have 1: "apply_filter literal_search '' '' sample_agg = Inr sample_agg" by blast
  from filter_idempotent [of literal_search "'' EI''" sample_agg] e
  have 2: "apply_filter literal_search '' EI''
        [\<lparr>Town = Str ''Beirut'', hospitals = 1, clinics = 2, pharmacies = 4, medical_centers = 0,
          TOTAL = 7\<rparr>] =
       Inr [\<lparr>Town = Str ''Beirut'', hospitals = 1, clinics = 2, pharmacies = 4, medical_centers = 0,
             TOTAL = 7\<rparr>]"
    by (simp add: bind_err_def)
  from b e 1 2 show ?thesis by blast
qed

text \<open>
  Claim C10. With a filter text that is not empty after stripping, a filtered table has
  no row whose Town is NaN: every such row of the aggregate is left out. The filtering
  gives a table unless the Town column has no \<^verbatim>\<open>.str\<close> accessor or the text
  does not compile.
\<close>

theorem filter_drops_missing_town:
  assumes "strip f \<noteq> []"
  shows "case apply_filter re f agg of
           Inr t \<Rightarrow> (\<forall>r \<in> set t. Town r \<noteq> NaN) \<and> (\<forall>r \<in> set agg. Town r = NaN \<longrightarrow> r \<notin> set t)
                    \<and> set t \<subseteq> set agg
         | Inl e \<Rightarrow> \<not> str_accessor_ok agg \<or> re (strip f) = None"
  using assms
  by (auto simp: apply_filter_active split: option.splits)

theorem filter_drops_missing_town_witness:
  "strip ''e'' \<noteq> []
   \<and> \<lparr>Town = NaN, hospitals = 2, clinics = 0, pharmacies = 0, medical_centers = 0, TOTAL = 2\<rparr>
       \<in> set (aggregate sample_rows)
   \<and> (\<exists>t. apply_filter literal_search ''e'' (aggregate sample_rows) = Inr t
       \<and> \<lparr>Town = NaN, hospitals = 2, clinics = 0, pharmacies = 0, medical_centers = 0, TOTAL = 2\<rparr>
           \<notin> set t)"
proof -
  have s: "strip ''e'' \<noteq> []" by code_simp
  have agg: "aggregate sample_rows = sample_agg" by code_simp
  have m: "\<lparr>Town = NaN, hospitals = 2, clinics = 0, pharmacies = 0, medical_centers = 0, TOTAL = 2\<rparr>
       \<in> set (aggregate sample_rows)"
    by (simp add: agg sample_agg_def)
  have ok: "str_accessor_ok (aggregate sample_rows)" by (simp add: agg) code_simp
  have re: "literal_search (strip ''e'') \<noteq> None" by (simp add: literal_search_def)
  from filter_drops_missing_town [OF s, where re = literal_search and agg = "aggregate sample_rows"] ok re
  obtain t where t: "apply_filter literal_search ''e'' (aggregate sample_rows) = Inr t"
    and d: "\<forall>r \<in> set (aggregate sample_rows). Town r = NaN \<longrightarrow> r \<notin> set t"
    by (cases "apply_filter literal_search ''e'' (aggregate sample_rows)") auto
  from d m have "\<lparr>Town = NaN, hospitals = 2, clinics = 0, pharmacies = 0, medical_centers = 0, TOTAL = 2\<rparr>
           \<notin> set t" by auto
  with s m t show ?thesis by blast
qed

subsection \<open>The default sort and the selection of the top towns\<close>

lemma length_sort_values_desc [simp]: "length (sort_values_desc tie key t) = length t"
  by (simp add: sort_values_desc_def)

lemma set_sort_values_desc [simp]: "set (sort_values_desc tie key t) = set t"
  by (simp add: sort_values_desc_def nth_image)

lemma descending_sort_values:
  "sorted_wrt (\<lambda>x y. key y \<le> key x) (sort_values_desc tie key t)"
proof -
  let ?f = "\<lambda>i. (- key (t ! i), tie (map key t) i)"
  have "sorted (map ?f (sort_key ?f [0..<length t]))"
    by (rule sorted_sort_key)
  then have "sorted_wrt (\<lambda>i j. ?f i \<le> ?f j) (sort_key ?f [0..<length t])"
    by (simp add: sorted_map)
  then have "sorted_wrt (\<lambda>i j. key (t ! j) \<le> key (t ! i)) (sort_key ?f [0..<length t])"
    by (rule sorted_wrt_mono_rel [rotated]) (auto simp: less_eq_prod_def)
  then show ?thesis
    by (simp add: sort_values_desc_def sorted_wrt_map)
qed

lemma distinct_sort_values:
  assumes "distinct (map g t)"
  shows "distinct (map g (sort_values_desc tie key t))"
proof -
  let ?p = "sort_key (\<lambda>i. (- key (t ! i), tie (map key t) i)) [0..<length t]"
  have p: "set ?p = {0..<length t}" "distinct ?p" by simp_all
  have "map g (sort_values_desc tie key t) = map (\<lambda>i. map g t ! i) ?p"
    using p(1) by (simp add: sort_values_desc_def)
  moreover have "inj_on (\<lambda>i. map g t ! i) (set ?p)"
    using assms p(1) by (auto simp: inj_on_def nth_eq_iff_index_eq simp del: nth_map)
  ultimately show ?thesis using p(2) by (simp add: distinct_map)
qed

lemma sort_values_desc_no_ties:
  assumes "distinct (map key t)"
  shows "sort_values_desc tie key t = sort_key (\<lambda>r. - key r) t"
proof -
  let ?n = "\<lambda>r. - key r"
  let ?A = "sort_values_desc tie key t"
  let ?B = "sort_key ?n t"
  from assms have dt: "distinct t" and inj: "inj_on ?n (set t)"
    by (auto simp: distinct_map inj_on_def)
  then have dn: "distinct (map ?n t)" by (simp add: distinct_map)
  have sA: "sorted (map ?n ?A)"
    using descending_sort_values [of key tie t] by (simp add: sorted_map)
  have dA: "distinct (map ?n ?A)" using dn by (rule distinct_sort_values)
  have sB: "sorted (map ?n ?B)" by (rule sorted_sort_key)
  have dB: "distinct (map ?n ?B)" using dt inj by (simp add: distinct_map)
  have "set (map ?n ?A) = set (map ?n ?B)" by simp
  with sA dA sB dB have "map ?n ?A = map ?n ?B"
    by (rule sorted_distinct_set_unique)
  moreover have "inj_on ?n (set ?A \<union> set ?B)" using inj by simp
  ultimately show ?thesis by (simp add: inj_on_map_eq_map)
qed

lemma length_nlargest: "length (nlargest tie n t) = min n (length t)"
  by (simp add: nlargest_def stable_desc_def min.commute)

lemma set_nlargest: "set (nlargest tie n t) \<subseteq> set t"
  by (auto simp: nlargest_def stable_desc_def dest: in_set_takeD)

lemma descending_stable_desc: "sorted_wrt (\<lambda>x y. TOTAL y \<le> TOTAL x) (stable_desc t)"
proof -
  have "sorted (map (\<lambda>r. - TOTAL r) (stable_desc t))"
    unfolding stable_desc_def by (rule sorted_sort_key)
  then show ?thesis by (simp add: sorted_map)
qed

lemma descending_nlargest: "sorted_wrt (\<lambda>x y. TOTAL y \<le> TOTAL x) (nlargest tie n t)"
  by (simp add: nlargest_def descending_sort_values descending_stable_desc sorted_wrt_take)

lemma distinct_nlargest:
  assumes "distinct (map Town t)"
  shows "distinct (map Town (nlargest tie n t))"
proof -
  have "distinct (map Town (sort_values_desc tie TOTAL t))"
    using assms by (rule distinct_sort_values)
  moreover have "distinct (map Town (stable_desc t))"
    using assms by (simp add: stable_desc_def distinct_map)
  ultimately show ?thesis
    by (simp add: nlargest_def take_map [symmetric] del: take_map)
qed

lemma nlargest_no_ties:
  "distinct (map TOTAL t) \<Longrightarrow> nlargest tie n t = take n (stable_desc t)"
  by (simp add: nlargest_def stable_desc_def sort_values_desc_no_ties)

lemma take_tops:
  assumes "sorted_wrt R s" and "x \<in> set (take n s)" and "y \<in> set s" and "y \<notin> set (take n s)"
  shows "R x y"
proof -
  have "s = take n s @ drop n s" by simp
  with assms(3,4) have y: "y \<in> set (drop n s)"
    by (metis Un_iff set_append)
  from assms(1) have "sorted_wrt R (take n s @ drop n s)" by simp
  with assms(2) y show ?thesis
    unfolding sorted_wrt_append by blast
qed

lemma nlargest_tops:
  assumes "x \<in> set (nlargest tie n t)" and "y \<in> set t" and "y \<notin> set (nlargest tie n t)"
  shows "TOTAL y \<le> TOTAL x"
proof (cases "length t \<le> n")
  case True
  let ?s = "sort_values_desc tie TOTAL t"
  from True assms(1,3) have x: "x \<in> set (take n ?s)" and y: "y \<notin> set (take n ?s)"
    by (simp_all add: nlargest_def)
  from assms(2) have yin: "y \<in> set ?s" by simp
  from take_tops [OF descending_sort_values [of TOTAL tie t] x yin y] show ?thesis
    by simp
next
  case False
  let ?s = "stable_desc t"
  from False assms(1,3) have x: "x \<in> set (take n ?s)" and y: "y \<notin> set (take n ?s)"
    by (simp_all add: nlargest_def)
  from assms(2) have yin: "y \<in> set ?s" by (simp add: stable_desc_def)
  from take_tops [OF descending_stable_desc [of t] x yin y] show ?thesis
    by simp
qed

lemma length_top20: "length (top20 tie t) = min 20 (length t)"
  by (simp add: top20_def length_nlargest)


lemma set_order: "set (order tie t) = set (map Town t)"
  by (simp add: order_def)




subsection \<open>The order of the towns in the bar chart\<close>

lemma aggregate_rows_TOTAL: "r \<in> set (aggregate rs) \<Longrightarrow> TOTAL r = need_sum r"
  by (auto simp: aggregate_def add_TOTAL_def need_sum_eq)

lemma apply_filter_sublist:
  "apply_filter re f agg = Inr t \<Longrightarrow> \<exists>P. t = filter P agg"
proof (cases "strip f = []")
  case True
  assume "apply_filter re f agg = Inr t"
  with True have "t = filter (\<lambda>r. True) agg" by (simp add: apply_filter_blank)
  then show ?thesis by blast
next
  case False
  assume "apply_filter re f agg = Inr t"
  with False show ?thesis
    by (auto simp: apply_filter_active split: if_splits option.splits)
qed

lemma filtered_aggregate:
  assumes "apply_filter re f (aggregate rs) = Inr t"
  shows "distinct (map Town t)" and "\<forall>r \<in> set t. TOTAL r = need_sum r"
proof -
  from assms obtain P where t: "t = filter P (aggregate rs)"
    using apply_filter_sublist by blast
  have "distinct (map Town (aggregate rs))"
    by (simp add: map_Town_aggregate distinct_group_keys)
  then show "distinct (map Town t)" by (simp add: t distinct_map_filter)
  show "\<forall>r \<in> set t. TOTAL r = need_sum r" by (auto simp: t intro: aggregate_rows_TOTAL)
qed

lemma need_sum_drop_TOTAL [simp]: "need_sum (drop_TOTAL r) = need_sum r"
  by (simp add: need_sum_eq drop_TOTAL_def)

lemma Town_drop_TOTAL [simp]: "Town (drop_TOTAL r) = Town r"
  by (simp add: drop_TOTAL_def)

lemma bar_shape_categories:
  "bar_shape tie t = Inr b \<Longrightarrow> categories b = order tie (top20 tie t)"
  by (auto simp: bar_shape_def Let_def split: sum.splits)

lemma distinct_top20:
  "distinct (map Town t) \<Longrightarrow> distinct (map Town (top20 tie t))"
  using distinct_nlargest [of t tie "min 20 (length t)"]
  by (simp add: top20_def comp_def)

lemma order_no_ties:
  assumes inv: "\<forall>r \<in> set t. TOTAL r = need_sum r" and d: "distinct (map TOTAL t)"
  shows "order tie (top20 tie t) = map Town (take 20 (stable_desc t))"
proof -
  let ?X = "take 20 (stable_desc t)"
  have n: "nlargest tie (min 20 (length t)) t = ?X"
    using d by (simp add: nlargest_no_ties stable_desc_def min_def)
  have sub: "set ?X \<subseteq> set t"
    by (auto simp: stable_desc_def dest: in_set_takeD)
  have keys: "map need_sum (map drop_TOTAL ?X) = map TOTAL ?X"
    using inv sub by (auto simp: subset_iff)
  from d have "distinct (map TOTAL (stable_desc t))"
    by (simp add: stable_desc_def distinct_map)
  then have "distinct (map TOTAL ?X)"
    by (simp add: take_map [symmetric] del: take_map)
  then have dk: "distinct (map need_sum (map drop_TOTAL ?X))" by (simp only: keys)
  have "sorted (map (\<lambda>r. - TOTAL r) (stable_desc t))"
    unfolding stable_desc_def by (rule sorted_sort_key)
  then have sX: "sorted (map (\<lambda>r. - TOTAL r) ?X)"
    by (simp add: take_map [symmetric] sorted_wrt_take del: take_map)
  have neg: "map (\<lambda>r. - need_sum r) (map drop_TOTAL ?X) = map (\<lambda>r. - TOTAL r) ?X"
    using inv sub by (auto simp: subset_iff)
  from sX have "sorted (map (\<lambda>r. - need_sum r) (map drop_TOTAL ?X))" by (simp only: neg)
  then have "sort_key (\<lambda>r. - need_sum r) (map drop_TOTAL ?X) = map drop_TOTAL ?X"
    by (rule sort_key_id_if_sorted)
  with dk have "sort_values_desc tie need_sum (map drop_TOTAL ?X) = map drop_TOTAL ?X"
    by (simp add: sort_values_desc_no_ties)
  then show ?thesis
    by (simp add: order_def top20_def n comp_def)
qed

lemma incoming_order_only_if_descending:
  assumes dt: "distinct (map Town t)" and inv: "\<forall>r \<in> set t. TOTAL r = need_sum r"
    and eq: "order tie (top20 tie t) = map Town t"
  shows "length t \<le> 20 \<and> sorted_wrt (\<lambda>x y. TOTAL y \<le> TOTAL x) t"
proof -
  let ?S = "sort_values_desc tie need_sum (top20 tie t)"
  from eq have "length (order tie (top20 tie t)) = length t" by simp
  then have len: "length t \<le> 20"
    by (simp add: order_def length_top20)
  have "set (top20 tie t) \<subseteq> drop_TOTAL ` set t"
    using set_nlargest [of tie "min 20 (length t)" t] by (auto simp: top20_def)
  then have sub: "set ?S \<union> set (map drop_TOTAL t) \<subseteq> set (map drop_TOTAL t)" by auto
  from dt have "distinct (map Town (map drop_TOTAL t))" by (simp add: comp_def)
  then have "inj_on Town (set (map drop_TOTAL t))" by (simp only: distinct_map)
  then have inj: "inj_on Town (set ?S \<union> set (map drop_TOTAL t))"
    using sub by (rule inj_on_subset)
  from eq have "map Town ?S = map Town (map drop_TOTAL t)"
    by (simp add: order_def comp_def)
  with inj have S: "?S = map drop_TOTAL t"
    by (simp only: inj_on_map_eq_map)
  have "sorted_wrt (\<lambda>x y. need_sum y \<le> need_sum x) ?S"
    by (rule descending_sort_values)
  then have "sorted_wrt (\<lambda>x y. need_sum y \<le> need_sum x) t"
    by (simp add: S sorted_wrt_map)
  then have "sorted_wrt (\<lambda>x y. TOTAL y \<le> TOTAL x) t"
    by (rule sorted_wrt_mono_rel [rotated]) (simp add: inv)
  with len show ?thesis by simp
qed

text \<open>
  Claim C6 as stated fails. Of the five towns of \<open>tied_rows\<close>, four have the total 5.
  With the tie order \<open>swap_ties\<close> in the default sort, T03 comes before T02 in the
  category order, while in the incoming table, and so in the stable descending order,
  T02 comes before T03.
\<close>

theorem bar_order_counterexample:
  "apply_filter literal_search '''' (aggregate tied_rows) = Inr (aggregate tied_rows)
   \<and> map Town (aggregate tied_rows)
       = [Str ''T00'', Str ''T01'', Str ''T02'', Str ''T03'', Str ''T04'']
   \<and> map TOTAL (aggregate tied_rows) = [1, 5, 5, 5, 5]
   \<and> map_sum id categories (bar_shape swap_ties (aggregate tied_rows))
       = Inr [Str ''T01'', Str ''T03'', Str ''T02'', Str ''T04'', Str ''T00'']
   \<and> map Town (take 20 (stable_desc (aggregate tied_rows)))
       = [Str ''T01'', Str ''T02'', Str ''T03'', Str ''T04'', Str ''T00'']"
  by code_simp

text \<open>
  Claim C6, as amended. For a filtered aggregate whose bar table is built, the category
  order of the Town column is the Town column of the selected rows after the sort of
  line 89: it lists the selected towns, each once, in non-increasing order of their
  total, and the selected towns are min(20, available) towns of highest TOTAL. The
  order among towns of equal total is the one the default sort leaves. When the totals
  of the table are pairwise distinct, the category order is the stable descending
  order cut after 20 towns. It is the incoming order of the table (which after
  \<^verbatim>\<open>groupby\<close> is the alphabetical one) only if the table has at most 20 rows and
  already descends in TOTAL.
\<close>

theorem bar_order:
  assumes "apply_filter re f (aggregate rs) = Inr t" and "bar_shape tie t = Inr b"
  shows "categories b = map Town (sort_values_desc tie need_sum (top20 tie t))
       \<and> sorted_wrt (\<lambda>x y. need_sum y \<le> need_sum x) (sort_values_desc tie need_sum (top20 tie t))
       \<and> set (categories b) = Town ` set (nlargest tie (min 20 (length t)) t)
       \<and> distinct (categories b)
       \<and> length (categories b) = min 20 (length t)
       \<and> (\<forall>x \<in> set (nlargest tie (min 20 (length t)) t). \<forall>y \<in> set t.
            y \<notin> set (nlargest tie (min 20 (length t)) t) \<longrightarrow> TOTAL y \<le> TOTAL x)
       \<and> (distinct (map TOTAL t) \<longrightarrow> categories b = map Town (take 20 (stable_desc t)))
       \<and> (categories b = map Town t \<longrightarrow>
            length t \<le> 20 \<and> sorted_wrt (\<lambda>x y. TOTAL y \<le> TOTAL x) t)"
proof -
  note fa = filtered_aggregate [OF assms(1)]
  note c = bar_shape_categories [OF assms(2)]
  have 1: "categories b = map Town (sort_values_desc tie need_sum (top20 tie t))"
    by (simp add: c order_def)
  have 2: "sorted_wrt (\<lambda>x y. need_sum y \<le> need_sum x)
      (sort_values_desc tie need_sum (top20 tie t))"
    by (rule descending_sort_values)
  have 3: "set (categories b) = Town ` set (nlargest tie (min 20 (length t)) t)"
    by (simp add: 1 top20_def image_image)
  have 4: "distinct (categories b)"
    unfolding 1 using distinct_top20 [OF fa(1)] by (rule distinct_sort_values)
  have 5: "length (categories b) = min 20 (length t)"
    by (simp add: 1 length_top20)
  have 6: "\<forall>x \<in> set (nlargest tie (min 20 (length t)) t). \<forall>y \<in> set t.
            y \<notin> set (nlargest tie (min 20 (length t)) t) \<longrightarrow> TOTAL y \<le> TOTAL x"
    using nlargest_tops by blast
  have 7: "categories b = map Town (take 20 (stable_desc t))" if "distinct (map TOTAL t)"
    using order_no_ties [OF fa(2) that] by (simp add: c)
  have 8: "length t \<le> 20 \<and> sorted_wrt (\<lambda>x y. TOTAL y \<le> TOTAL x) t"
    if "categories b = map Town t"
    using incoming_order_only_if_descending [OF fa(1) fa(2)] that by (simp add: c)
  from 1 2 3 4 5 6 7 8 show ?thesis by blast
qed

theorem bar_order_witness:
  "apply_filter literal_search ''b'' (aggregate tie_rows)
     = Inr [\<lparr>Town = Str ''Baalbek'', hospitals = 2, clinics = 2, pharmacies = 5,
             medical_centers = 1, TOTAL = 10\<rparr>,
            \<lparr>Town = Str ''Beirut'', hospitals = 1, clinics = 2, pharmacies = 4,
             medical_centers = 0, TOTAL = 7\<rparr>]
   \<and> (\<exists>b. bar_shape swap_ties
              [\<lparr>Town = Str ''Baalbek'', hospitals = 2, clinics = 2, pharmacies = 5,
                medical_centers = 1, TOTAL = 10\<rparr>,
               \<lparr>Town = Str ''Beirut'', hospitals = 1, clinics = 2, pharmacies = 4,
                medical_centers = 0, TOTAL = 7\<rparr>] = Inr b
        \<and> categories b = [Str ''Baalbek'', Str ''Beirut'']
        \<and> categories b
            = map Town
                [\<lparr>Town = Str ''Baalbek'', hospitals = 2, clinics = 2, pharmacies = 5,
                  medical_centers = 1, TOTAL = 10\<rparr>,
                 \<lparr>Town = Str ''Beirut'', hospitals = 1, clinics = 2, pharmacies = 4,
                  medical_centers = 0, TOTAL = 7\<rparr>])"
proof -
  let ?t = "[\<lparr>Town = Str ''Baalbek'', hospitals = 2, clinics = 2, pharmacies = 5,
             medical_centers = 1, TOTAL = 10\<rparr>,
            \<lparr>Town = Str ''Beirut'', hospitals = 1, clinics = 2, pharmacies = 4,
             medical_centers = 0, TOTAL = 7\<rparr>]"
  have f: "apply_filter literal_search ''b'' (aggregate tie_rows) = Inr ?t"
    by code_simp
  have d: "distinct (map TOTAL ?t)" by simp
  have s: "map Town (take 20 (stable_desc ?t)) = [Str ''Baalbek'', Str ''Beirut'']"
    by code_simp
  obtain b where b: "bar_shape swap_ties ?t = Inr b"
    by (cases "bar_shape swap_ties ?t") (code_simp, blast)
  from bar_order [OF f b] d
  have "categories b = map Town (take 20 (stable_desc ?t))" by blast
  with s have c: "categories b = [Str ''Baalbek'', Str ''Beirut'']" by simp
  then have "categories b = map Town ?t" by simp
  with f b c show ?thesis by blast
qed

subsection \<open>The long table\<close>

lemma melt_blocks:
  "map_pretty (melt t) =
     concat (map (\<lambda>(v, p). map (\<lambda>r. \<lparr>Town_id = Town r, Resource = Some p, count = get_col v r\<rparr>) t)
                 pretty)"
  by (simp add: map_pretty_def melt_def need_def pretty_def)

lemma melt_pairs:
  "map (\<lambda>r. (Town_id r, Resource r)) (map_pretty (melt t)) =
     map (\<lambda>r. (Town r, Some ''Hospitals'')) t @ map (\<lambda>r. (Town r, Some ''Clinics'')) t
     @ map (\<lambda>r. (Town r, Some ''Pharmacies'')) t @ map (\<lambda>r. (Town r, Some ''Medical Centers'')) t"
  by (simp add: melt_blocks pretty_def comp_def)

lemma distinct_tagged:
  "distinct (map f xs) \<Longrightarrow> distinct (map (\<lambda>r. (f r, c)) xs)"
  by (induction xs) auto

lemma set_Town_same: "set_Town l (map Town_id l) = l"
  by (induction l) (simp_all add: set_Town_def)

lemma Town_id_melt: "set (map Town_id (map_pretty (melt t))) = set (map Town t)"
  by (auto simp: melt_blocks pretty_def)

lemma bar_shape_rows:
  assumes "bar_shape tie af = Inr b"
  shows "long_rows b = map_pretty (melt (top20 tie af))"
proof -
  let ?l = "map_pretty (melt (top20 tie af))"
  from assms obtain towns where c: "Categorical (map Town_id ?l) (order tie (top20 tie af)) = Inr towns"
    and b: "b = \<lparr>long_rows = set_Town ?l towns, categories = order tie (top20 tie af)\<rparr>"
    by (auto simp: bar_shape_def Let_def split: sum.splits)
  from c have "towns = map (\<lambda>v. if v \<in> set (order tie (top20 tie af)) then v else NaN) (map Town_id ?l)"
    by (simp add: Categorical_def split: if_splits)
  also have "\<dots> = map Town_id ?l"
    using Town_id_melt [of "top20 tie af"] set_order [of tie "top20 tie af"]
    by (intro map_idI) auto
  finally show ?thesis by (simp add: b set_Town_same)
qed

text \<open>
  Claim C7. The long table of a selection has four rows per selected town: for each
  resource, in the order of \<open>pretty\<close>, one row per town carrying the display name
  of the resource and the town's count. Its (Town, Resource) pairs are all pairs of a
  selected town and a display name, and with the towns of the selection distinct no
  pair occurs twice. The rows handed to the bar chart are these rows.
\<close>

theorem melt_shape:
  "length (map_pretty (melt t)) = length t * 4
   \<and> map_pretty (melt t) =
       concat (map (\<lambda>(v, p). map (\<lambda>r. \<lparr>Town_id = Town r, Resource = Some p, count = get_col v r\<rparr>) t)
                   pretty)
   \<and> set (map (\<lambda>r. (Town_id r, Resource r)) (map_pretty (melt t))) =
       set (map Town t)
         \<times> {Some ''Hospitals'', Some ''Clinics'', Some ''Pharmacies'', Some ''Medical Centers''}
   \<and> (distinct (map Town t) \<longrightarrow>
        distinct (map (\<lambda>r. (Town_id r, Resource r)) (map_pretty (melt t))))
   \<and> (bar_shape tie af = Inr b \<longrightarrow> long_rows b = map_pretty (melt (top20 tie af)))"
proof -
  have len: "length (map_pretty (melt t)) = length t * 4"
    by (simp add: melt_blocks pretty_def)
  have pairs: "set (map (\<lambda>r. (Town_id r, Resource r)) (map_pretty (melt t))) =
       set (map Town t)
         \<times> {Some ''Hospitals'', Some ''Clinics'', Some ''Pharmacies'', Some ''Medical Centers''}"
    unfolding melt_pairs by auto
  have dist: "distinct (map (\<lambda>r. (Town_id r, Resource r)) (map_pretty (melt t)))"
    if "distinct (map Town t)"
    unfolding melt_pairs using that by (auto simp: distinct_tagged)
  show ?thesis
    using len melt_blocks pairs dist bar_shape_rows by blast
qed

theorem melt_shape_witness:
  "apply_filter literal_search ''e'' (aggregate sample_rows)
     = Inr [\<lparr>Town = Str ''Aley'', hospitals = 0, clinics = 4, pharmacies = 5, medical_centers = 0,
            TOTAL = 9\<rparr>,
           \<lparr>Town = Str ''Beirut'', hospitals = 1, clinics = 2, pharmacies = 4, medical_centers = 0,
            TOTAL = 7\<rparr>,
           \<lparr>Town = Str ''Zahle'', hospitals = 0, clinics = 1, pharmacies = 8, medical_centers = 1,
            TOTAL = 10\<rparr>]
   \<and> distinct (map Town (top20 swap_ties sample_agg))
   \<and> length (map_pretty (melt (top20 swap_ties sample_agg))) = 16
   \<and> distinct (map (\<lambda>r. (Town_id r, Resource r)) (map_pretty (melt (top20 swap_ties sample_agg))))
   \<and> (\<exists>b. bar_shape swap_ties (filter (\<lambda>r. Town r \<noteq> NaN) sample_agg) = Inr b
        \<and> length (long_rows b) = 12
        \<and> hd (long_rows b) = \<lparr>Town_id = Str ''Zahle'', Resource = Some ''Hospitals'', count = 0\<rparr>)"
proof -
  have f: "apply_filter literal_search ''e'' (aggregate sample_rows)
     = Inr [\<lparr>Town = Str ''Aley'', hospitals = 0, clinics = 4, pharmacies = 5, medical_centers = 0,
            TOTAL = 9\<rparr>,
           \<lparr>Town = Str ''Beirut'', hospitals = 1, clinics = 2, pharmacies = 4, medical_centers = 0,
            TOTAL = 7\<rparr>,
           \<lparr>Town = Str ''Zahle'', hospitals = 0, clinics = 1, pharmacies = 8, medical_centers = 1,
            TOTAL = 10\<rparr>]"
    by code_simp
  have d: "distinct (map Town (top20 swap_ties sample_agg))" by code_simp
  have l: "length (top20 swap_ties sample_agg) = 4" by (simp add: length_top20 sample_agg_def)
  obtain b where b: "bar_shape swap_ties (filter (\<lambda>r. Town r \<noteq> NaN) sample_agg) = Inr b"
    by (cases "bar_shape swap_ties (filter (\<lambda>r. Town r \<noteq> NaN) sample_agg)") (code_simp, blast)
  have h: "hd (map_pretty (melt (top20 swap_ties (filter (\<lambda>r. Town r \<noteq> NaN) sample_agg))))
      = \<lparr>Town_id = Str ''Zahle'', Resource = Some ''Hospitals'', count = 0\<rparr>"
    by code_simp
  have l3: "length (top20 swap_ties (filter (\<lambda>r. Town r \<noteq> NaN) sample_agg)) = 3"
    by (simp add: length_top20 sample_agg_def)
  note m = melt_shape [of "top20 swap_ties sample_agg" swap_ties
      "filter (\<lambda>r. Town r \<noteq> NaN) sample_agg" b]
  from m have "length (map_pretty (melt (top20 swap_ties sample_agg))) = length (top20 swap_ties sample_agg) * 4"
    by blast
  with l have 1: "length (map_pretty (melt (top20 swap_ties sample_agg))) = 16" by simp
  from m d have 2: "distinct (map (\<lambda>r. (Town_id r, Resource r)) (map_pretty (melt (top20 swap_ties sample_agg))))"
    by blast
  from m b have 3: "long_rows b = map_pretty (melt (top20 swap_ties (filter (\<lambda>r. Town r \<noteq> NaN) sample_agg)))"
    by blast
  have "length (map_pretty (melt (top20 swap_ties (filter (\<lambda>r. Town r \<noteq> NaN) sample_agg)))) = 12"
    using l3 by (simp add: melt_blocks pretty_def)
  with 3 h have 4: "length (long_rows b) = 12
      \<and> hd (long_rows b) = \<lparr>Town_id = Str ''Zahle'', Resource = Some ''Hospitals'', count = 0\<rparr>"
    by simp
  from f d 1 2 4 b show ?thesis by blast
qed

subsection \<open>The store\<close>

lemmas prog_defs = bind_prog_def ret_def lift_def new_frame_def write_frame_def read_agg_def
  read_counts_def read_long_def

lemma shape_script_frame:
  assumes "heap s agg = Some (AggFrame a)" and "agg < next_ref s"
  shows "\<forall>r < next_ref s. heap (snd (shape_script re tie p agg s)) r = heap s r"
  using assms
  by (auto simp: shape_script_def prog_defs split: sum.splits)

lemma shape_script_outcome:
  assumes "heap s agg = Some (AggFrame a)" and "agg < next_ref s"
  shows "case fst (shape_script re tie p agg s) of
            Inl e \<Rightarrow> bind_err (apply_filter re (name_filter p) a) (shapes tie (n_towns p)) = Inl e
          | Inr (l, m) \<Rightarrow>
              (\<exists>c. bind_err (apply_filter re (name_filter p) a) (shapes tie (n_towns p)) = Inr c
                \<and> heap (snd (shape_script re tie p agg s)) l
                    = Some (LongFrame (long_rows (bar c)) (Some (categories (bar c))))
                \<and> heap (snd (shape_script re tie p agg s)) m = Some (MatFrame (heat c)))"
proof (cases "strip (name_filter p) = []")
  case True
  show ?thesis
  proof (cases "Categorical (map Town_id (map_pretty (melt (top20 tie a)))) (order tie (top20 tie a))")
    case (Inl e)
    with True assms show ?thesis
      by (simp add: shape_script_def prog_defs bind_err_def shapes_def bar_shape_def Let_def
          apply_filter_blank)
  next
    case (Inr towns)
    with True assms show ?thesis
      by (simp add: shape_script_def prog_defs bind_err_def shapes_def bar_shape_def Let_def
          apply_filter_blank)
  qed
next
  case False
  show ?thesis
  proof (cases "apply_filter re (name_filter p) a")
    case (Inl e)
    with False assms show ?thesis
      by (simp add: shape_script_def prog_defs bind_err_def)
  next
    case (Inr af)
    show ?thesis
    proof (cases "Categorical (map Town_id (map_pretty (melt (top20 tie af)))) (order tie (top20 tie af))")
      case (Inl e)
      with False Inr assms show ?thesis
        by (simp add: shape_script_def prog_defs bind_err_def shapes_def bar_shape_def Let_def)
    next
      case Inr2: (Inr towns)
      with False Inr assms show ?thesis
        by (simp add: shape_script_def prog_defs bind_err_def shapes_def bar_shape_def Let_def)
    qed
  qed
qed

text \<open>
  Claim C9. Run on any store in which \<^verbatim>\<open>agg\<close> refers to the aggregate, lines 75 to
  105 leave that object as it was, and every other object that existed before them:
  they write only to objects they allocate. What they compute, in the objects of
  \<^verbatim>\<open>long_top20\<close> and \<^verbatim>\<open>mat\<close>, are the two chart tables of \<open>shapes\<close> for
  the filtered aggregate, or its error.
\<close>

theorem shapes_leave_agg:
  assumes "heap s agg = Some (AggFrame a)" and "agg < next_ref s"
  shows "heap (snd (shape_script re tie p agg s)) agg = Some (AggFrame a)
       \<and> (\<forall>r < next_ref s. heap (snd (shape_script re tie p agg s)) r = heap s r)
       \<and> (case fst (shape_script re tie p agg s) of
            Inl e \<Rightarrow> bind_err (apply_filter re (name_filter p) a) (shapes tie (n_towns p)) = Inl e
          | Inr (l, m) \<Rightarrow>
              (\<exists>c. bind_err (apply_filter re (name_filter p) a) (shapes tie (n_towns p)) = Inr c
                \<and> heap (snd (shape_script re tie p agg s)) l
                    = Some (LongFrame (long_rows (bar c)) (Some (categories (bar c))))
                \<and> heap (snd (shape_script re tie p agg s)) m = Some (MatFrame (heat c))))"
proof -
  note f = shape_script_frame [OF assms, where re = re and tie = tie and p = p]
  with assms have 1: "heap (snd (shape_script re tie p agg s)) agg = Some (AggFrame a)" by simp
  note 3 = shape_script_outcome [OF assms, where re = re and tie = tie and p = p]
  from 1 f 3 show ?thesis by blast
qed

theorem shapes_leave_agg_witness:
  "heap sample_store 0 = Some (AggFrame sample_agg) \<and> 0 < next_ref sample_store
   \<and> fst (shape_script literal_search swap_ties \<lparr>name_filter = ''e'', n_towns = 2\<rparr> 0 sample_store) = Inr (4, 6)
   \<and> heap (snd (shape_script literal_search swap_ties \<lparr>name_filter = ''e'', n_towns = 2\<rparr> 0 sample_store)) 0
       = Some (AggFrame sample_agg)
   \<and> heap (snd (shape_script literal_search swap_ties \<lparr>name_filter = ''e'', n_towns = 2\<rparr> 0 sample_store)) 6
       = Some (MatFrame \<lparr>index = [Str ''Zahle'', Str ''Aley''],
            mat_columns = [''Hospitals'', ''Clinics'', ''Pharmacies'', ''Medical Centers''],
            mat_values = [[0, 1, 8, 1], [0, 4, 5, 0]]\<rparr>)"
proof -
  have h: "heap sample_store 0 = Some (AggFrame sample_agg)" by (simp add: sample_store_def)
  have n: "0 < next_ref sample_store" by (simp add: sample_store_def)
  have r: "fst (shape_script literal_search swap_ties \<lparr>name_filter = ''e'', n_towns = 2\<rparr> 0 sample_store) = Inr (4, 6)"
    by code_simp
  have c: "bind_err (apply_filter literal_search ''e'' sample_agg) (shapes swap_ties 2) = Inr c
      \<Longrightarrow> heat c = \<lparr>index = [Str ''Zahle'', Str ''Aley''],
            mat_columns = [''Hospitals'', ''Clinics'', ''Pharmacies'', ''Medical Centers''],
            mat_values = [[0, 1, 8, 1], [0, 4, 5, 0]]\<rparr>" for c
  proof -
    have "map_sum id heat (bind_err (apply_filter literal_search ''e'' sample_agg) (shapes swap_ties 2))
       = Inr \<lparr>index = [Str ''Zahle'', Str ''Aley''],
            mat_columns = [''Hospitals'', ''Clinics'', ''Pharmacies'', ''Medical Centers''],
            mat_values = [[0, 1, 8, 1], [0, 4, 5, 0]]\<rparr>"
      by code_simp
    moreover assume "bind_err (apply_filter literal_search ''e'' sample_agg) (shapes swap_ties 2) = Inr c"
    ultimately show ?thesis by simp
  qed
  from shapes_leave_agg [OF h n, of literal_search swap_ties
      "\<lparr>name_filter = ''e'', n_towns = 2\<rparr>"] r c
  show ?thesis using h n by auto
qed

end
